theory Spec2Isabelle
  imports Complex_Main "HOL-Library.Char_ord" "HOL-Library.List_Lexorder"
begin

section \<open>Python values, errors and the outside world\<close>

text \<open>
  The match records are parsed JSON, so a value is one of Python's JSON types. A dict is
  an association list (the first binding of a key is the one a lookup sees). A float is
  carried as the exact rational it stands for: true division is modelled without
  rounding, overflow or infinities; \<open>PNaN\<close> is the float \<open>nan\<close>.
\<close>

datatype pyval =
    PNone
  | PBool bool
  | PInt int
  | PFloat rat
  | PNaN
  | PStr string
  | PList "pyval list"
  | PDict "(string \<times> pyval) list"

text \<open>
  Exceptions raised inside \<open>requests\<close>: \<open>RequestException\<close> stands for the class and
  all its subclasses but \<open>HTTPError\<close>, which \<open>raise_for_status\<close> raises with the status;
  \<open>OtherException\<close> is anything outside that hierarchy.
\<close>

datatype exn = RequestException string | HTTPError nat | OtherException string

fun is_RequestException :: "exn \<Rightarrow> bool" where
  "is_RequestException (RequestException _) = True"
| "is_RequestException (HTTPError _) = True"
| "is_RequestException (OtherException _) = False"

datatype py_error =
    KeyError string
  | TypeError
  | AttributeError
  | ValueError
  | ZeroDivisionError
  | IndexError
  | Uncaught exn
  | OutsideModel

text \<open>
  \<open>Uncaught\<close> is an exception of \<open>requests\<close> that no handler caught.
  \<open>OutsideModel\<close> is no Python exception: it marks an input on which the model of
  a pandas operation stops (a champion or role cell that is neither a string nor null).
\<close>

text \<open>
  What \<open>requests.get\<close> does with a URL: it raises, or it returns a response with a
  status code and a body; \<open>response.json()\<close> returns the parsed body or raises.
\<close>

datatype http_outcome = Raise exn | Response nat "exn + pyval"

text \<open>
  The network answers the \<open>k\<close>-th request of the run for a URL; the answer may change
  from one request to the next.
\<close>

type_synonym network = "nat \<Rightarrow> string \<Rightarrow> http_outcome"

text \<open>
  Everything the code does to the outside world is an event of a chronological trace:
  the HTTP request, \<open>time.sleep\<close>, \<open>st.error\<close>, \<open>print\<close> and
  \<open>progress_bar.progress\<close>.
\<close>

datatype event =
    Request string
  | Sleep nat
  | StError string exn
  | Print string exn
  | Progress rat

fun is_Request :: "event \<Rightarrow> bool" where
  "is_Request (Request _) = True"
| "is_Request _ = False"

definition requests_made :: "event list \<Rightarrow> nat" where
  "requests_made tr = length (filter is_Request tr)"

definition bind_err :: "'e + 'a \<Rightarrow> ('a \<Rightarrow> 'e + 'b) \<Rightarrow> 'e + 'b" where
  "bind_err m f = (case m of Inl e \<Rightarrow> Inl e | Inr v \<Rightarrow> f v)"

section \<open>api\_utils.py\<close>

text \<open>
  \<open>API_KEY\<close> and \<open>CONTINENT\<close> come from \<open>os.getenv\<close>, which gives \<open>None\<close> for an
  unset variable; an f-string prints that as \<open>None\<close>.
\<close>

record config =
  API_KEY :: "string option"
  CONTINENT :: "string option"

definition fmt_env :: "string option \<Rightarrow> string" where
  "fmt_env v = (case v of None \<Rightarrow> ''None'' | Some s \<Rightarrow> s)"

definition match_url :: "config \<Rightarrow> string \<Rightarrow> string" where
  "match_url cfg match_id =
     ''https://'' @ fmt_env (CONTINENT cfg) @ ''.api.riotgames.com/lol/match/v5/matches/''
       @ match_id @ ''?api_key='' @ fmt_env (API_KEY cfg)"

text \<open>
  The \<open>except requests.exceptions.RequestException\<close> clause of \<open>getMatchDetails\<close>:
  the error is shown and printed and an empty dict is returned; any other exception
  leaves the function.
\<close>

definition on_exception :: "string \<Rightarrow> exn \<Rightarrow> event list \<Rightarrow> (py_error + pyval) \<times> event list" where
  "on_exception match_id e tr =
     (if is_RequestException e
      then (Inr (PDict []), tr @ [StError match_id e, Print match_id e])
      else (Inl (Uncaught e), tr))"

definition raises_for_status :: "nat \<Rightarrow> bool" where
  "raises_for_status status \<longleftrightarrow> 400 \<le> status \<and> status < 600"

definition getMatchDetails ::
  "config \<Rightarrow> network \<Rightarrow> string \<Rightarrow> event list \<Rightarrow> (py_error + pyval) \<times> event list" where
  "getMatchDetails cfg net match_id tr =
     (let url = match_url cfg match_id;
          tr0 = tr @ [Request url]
      in case net (requests_made tr) url of
           Raise e \<Rightarrow> on_exception match_id e tr0
         | Response status body \<Rightarrow>
             (let tr1 = tr0 @ [Sleep 1]
              in if raises_for_status status
                 then on_exception match_id (HTTPError status) tr1
                 else (case body of
                         Inl e \<Rightarrow> on_exception match_id e tr1
                       | Inr j \<Rightarrow> (Inr j, tr1))))"

text \<open>A transport error (the request itself raises) or an HTTP error status.\<close>

definition transport_or_http_error :: "http_outcome \<Rightarrow> bool" where
  "transport_or_http_error outcome =
     (case outcome of
        Raise e \<Rightarrow> is_RequestException e
      | Response status body \<Rightarrow> raises_for_status status)"

definition example_config :: config where
  "example_config = \<lparr>API_KEY = Some ''KEY'', CONTINENT = Some ''americas''\<rparr>"

definition failing_network :: network where
  "failing_network k url = Raise (RequestException ''connection refused'')"

section \<open>Python operations on values\<close>

fun py_truthy :: "pyval \<Rightarrow> bool" where
  "py_truthy PNone = False"
| "py_truthy (PBool b) = b"
| "py_truthy (PInt i) = (i \<noteq> 0)"
| "py_truthy (PFloat q) = (q \<noteq> 0)"
| "py_truthy PNaN = True"
| "py_truthy (PStr s) = (s \<noteq> [])"
| "py_truthy (PList xs) = (xs \<noteq> [])"
| "py_truthy (PDict kv) = (kv \<noteq> [])"

text \<open>\<open>a or b\<close>\<close>

definition py_or :: "pyval \<Rightarrow> pyval \<Rightarrow> pyval" where
  "py_or a b = (if py_truthy a then a else b)"

text \<open>A bool counts as the integer 0 or 1 in arithmetic.\<close>

fun as_int :: "pyval \<Rightarrow> int option" where
  "as_int (PBool b) = Some (if b then 1 else 0)"
| "as_int (PInt i) = Some i"
| "as_int _ = None"

fun as_num :: "pyval \<Rightarrow> rat option" where
  "as_num (PBool b) = Some (if b then 1 else 0)"
| "as_num (PInt i) = Some (of_int i)"
| "as_num (PFloat q) = Some q"
| "as_num _ = None"

definition is_number :: "pyval \<Rightarrow> bool" where
  "is_number v \<longleftrightarrow> v = PNaN \<or> as_num v \<noteq> None"

text \<open>\<open>a + b\<close>: numbers add, strings and lists concatenate, anything else is a TypeError.\<close>

definition py_add :: "pyval \<Rightarrow> pyval \<Rightarrow> py_error + pyval" where
  "py_add a b =
     (case (as_int a, as_int b) of
        (Some i, Some j) \<Rightarrow> Inr (PInt (i + j))
      | _ \<Rightarrow>
          if is_number a \<and> is_number b
          then (case (as_num a, as_num b) of
                  (Some x, Some y) \<Rightarrow> Inr (PFloat (x + y))
                | _ \<Rightarrow> Inr PNaN)
          else (case (a, b) of
                  (PStr s, PStr t) \<Rightarrow> Inr (PStr (s @ t))
                | (PList xs, PList ys) \<Rightarrow> Inr (PList (xs @ ys))
                | _ \<Rightarrow> Inl TypeError))"

text \<open>\<open>a / b\<close>: true division of numbers; a zero divisor raises.\<close>

definition py_truediv :: "pyval \<Rightarrow> pyval \<Rightarrow> py_error + pyval" where
  "py_truediv a b =
     (if is_number a \<and> is_number b
      then (if as_num b = Some 0 then Inl ZeroDivisionError
            else (case (as_num a, as_num b) of
                    (Some x, Some y) \<Rightarrow> Inr (PFloat (x / y))
                  | _ \<Rightarrow> Inr PNaN))
      else Inl TypeError)"

text \<open>
  \<open>int(s)\<close> for a string: surrounding whitespace is dropped, a sign may lead, and the
  rest is decimal digits, single underscores allowed between digits.
\<close>

definition is_space :: "char \<Rightarrow> bool" where
  "is_space c \<longleftrightarrow>
     c \<in> set [CHR '' '', CHR 0x09, CHR 0x0A, CHR 0x0B, CHR 0x0C, CHR 0x0D,
               CHR 0x1C, CHR 0x1D, CHR 0x1E, CHR 0x1F]"

definition strip :: "string \<Rightarrow> string" where
  "strip s = rev (dropWhile is_space (rev (dropWhile is_space s)))"

definition digit_val :: "char \<Rightarrow> nat option" where
  "digit_val c =
     (if of_char (CHR ''0'') \<le> (of_char c :: nat) \<and> (of_char c :: nat) \<le> of_char (CHR ''9'')
      then Some (of_char c - of_char (CHR ''0'')) else None)"

fun parse_digits :: "bool \<Rightarrow> nat \<Rightarrow> string \<Rightarrow> nat option" where
  "parse_digits prev acc [] = (if prev then Some acc else None)"
| "parse_digits prev acc (c # cs) =
     (if c = CHR ''_'' then (if prev \<and> cs \<noteq> [] then parse_digits False acc cs else None)
      else (case digit_val c of
              None \<Rightarrow> None
            | Some d \<Rightarrow> parse_digits True (10 * acc + d) cs))"

definition int_of_string :: "string \<Rightarrow> int option" where
  "int_of_string s =
     (case strip s of
        [] \<Rightarrow> None
      | c # cs \<Rightarrow>
          if c = CHR ''-'' then map_option (\<lambda>n. - int n) (parse_digits False 0 cs)
          else if c = CHR ''+'' then map_option int (parse_digits False 0 cs)
          else map_option int (parse_digits False 0 (c # cs)))"

text \<open>\<open>int(v)\<close>; a float is truncated towards zero.\<close>

fun py_int :: "pyval \<Rightarrow> py_error + int" where
  "py_int (PBool b) = Inr (if b then 1 else 0)"
| "py_int (PInt i) = Inr i"
| "py_int (PFloat q) = Inr (if 0 \<le> q then \<lfloor>q\<rfloor> else \<lceil>q\<rceil>)"
| "py_int PNaN = Inl ValueError"
| "py_int (PStr s) = (case int_of_string s of None \<Rightarrow> Inl ValueError | Some i \<Rightarrow> Inr i)"
| "py_int _ = Inl TypeError"

definition dict_get :: "(string \<times> pyval) list \<Rightarrow> string \<Rightarrow> pyval \<Rightarrow> pyval" where
  "dict_get kv k d = (case map_of kv k of None \<Rightarrow> d | Some v \<Rightarrow> v)"

text \<open>\<open>v.get(k, d)\<close>: only a dict has the method.\<close>

fun py_get :: "pyval \<Rightarrow> string \<Rightarrow> pyval \<Rightarrow> py_error + pyval" where
  "py_get (PDict kv) k d = Inr (dict_get kv k d)"
| "py_get _ k d = Inl AttributeError"

text \<open>\<open>v[k]\<close> with a string key: a KeyError on a dict without the key, a TypeError on
  any other value.\<close>

fun py_subscript :: "pyval \<Rightarrow> string \<Rightarrow> py_error + pyval" where
  "py_subscript (PDict kv) k = (case map_of kv k of None \<Rightarrow> Inl (KeyError k) | Some v \<Rightarrow> Inr v)"
| "py_subscript _ k = Inl TypeError"

definition first_seen :: "'a list \<Rightarrow> 'a list" where
  "first_seen xs = rev (remdups (rev xs))"


section \<open>data\_processing.py\<close>

type_synonym row = "(string \<times> pyval) list"

text \<open>
  A DataFrame: the column labels in order, and the rows; a cell a row does not give is
  \<open>nan\<close>. \<open>pd.DataFrame(data)\<close> on a list of dicts takes the keys, in the order they
  are first seen, as the columns: none at all for the empty list.
\<close>

record dataframe =
  df_columns :: "string list"
  df_rows :: "row list"



text \<open>
  The dict literal appended for the player found. Its values are evaluated in the order
  written; \<open>player['kills']\<close>, \<open>player['deaths']\<close> and \<open>player['assists']\<close> are read
  again for the kda, with the result of the first read.
\<close>

definition feature_row :: "pyval \<Rightarrow> pyval \<Rightarrow> py_error + row" where
  "feature_row match player =
     bind_err (py_subscript player ''championName'') (\<lambda>champion.
     bind_err (py_subscript player ''win'') (\<lambda>win.
     bind_err (py_subscript player ''kills'') (\<lambda>kills.
     bind_err (py_subscript player ''deaths'') (\<lambda>deaths.
     bind_err (py_subscript player ''assists'') (\<lambda>assists.
     bind_err (py_add kills assists) (\<lambda>ka.
     bind_err (py_truediv ka (py_or deaths (PInt 1))) (\<lambda>kda.
     bind_err (py_subscript player ''teamPosition'') (\<lambda>role.
     bind_err (py_subscript match ''info'') (\<lambda>info.
     bind_err (py_subscript info ''gameDuration'') (\<lambda>gameDuration.
     bind_err (py_truediv gameDuration (PInt 60)) (\<lambda>duration.
     bind_err (py_get player ''goldEarned'' (PInt 0)) (\<lambda>gold.
     bind_err (py_get player ''totalDamageDealtToChampions'' (PInt 0)) (\<lambda>damage.
     bind_err (py_get player ''totalMinionsKilled'' (PInt 0)) (\<lambda>farm.
     bind_err (py_get player ''visionScore'' (PInt 0)) (\<lambda>vision.
     bind_err (py_get player ''firstBloodKill'' (PBool False)) (\<lambda>fb.
     bind_err (py_int fb) (\<lambda>first_blood.
       Inr [(''champion'', champion),
            (''win'', win),
            (''kills'', kills),
            (''deaths'', deaths),
            (''assists'', assists),
            (''kda'', kda),
            (''role'', role),
            (''duration'', duration),
            (''gold'', gold),
            (''damage'', damage),
            (''farm'', farm),
            (''vision'', vision),
            (''first_blood'', PInt first_blood)])))))))))))))))))"






section \<open>pandas operations\<close>







text \<open>\<open>entry[c] = v\<close> on a frame of one row: every column labelled \<open>c\<close> is set, and a
  new last column is added when there is none.\<close>

definition set_column :: "string \<Rightarrow> pyval \<Rightarrow> row \<Rightarrow> row" where
  "set_column c v e =
     (if c \<in> set (map fst e) then map (\<lambda>(k, w). if k = c then (k, v) else (k, w)) e
      else e @ [(c, v)])"







section \<open>model.py\<close>






text \<open>
  The synthetic row of one champion and role: zeros over the training columns, the two
  means, and the two indicators where the training columns have them.
\<close>

definition synthetic_entry :: "string list \<Rightarrow> pyval \<Rightarrow> pyval \<Rightarrow> string \<Rightarrow> string \<Rightarrow> row" where
  "synthetic_entry x_columns kda_average time_average champ role =
     (let entry = map (\<lambda>c. (c, PFloat 0)) x_columns;
          entry = set_column ''kda'' kda_average entry;
          entry = set_column ''duration'' time_average entry;
          entry = (if (''champion_'' @ champ) \<in> set (map fst entry)
                   then set_column (''champion_'' @ champ) (PInt 1) entry else entry);
          entry = (if (''role_'' @ role) \<in> set (map fst entry)
                   then set_column (''role_'' @ role) (PInt 1) entry else entry)
      in entry)"






section \<open>Feature datasets and classifiers\<close>








section \<open>Match records as the API serves them\<close>










text \<open>The record a fetch hands to the extractor for an answer of the network.\<close>

definition record_of :: "http_outcome \<Rightarrow> pyval" where
  "record_of outcome =
     (case outcome of
        Raise e \<Rightarrow> PDict []
      | Response status body \<Rightarrow>
          if raises_for_status status then PDict []
          else (case body of Inl e \<Rightarrow> PDict [] | Inr j \<Rightarrow> j))"

text \<open>The records of a batch whose first request is the \<open>k\<close>-th of the run.\<close>

fun fetched :: "config \<Rightarrow> network \<Rightarrow> nat \<Rightarrow> string list \<Rightarrow> pyval list" where
  "fetched cfg net k [] = []"
| "fetched cfg net k (match_id # rest) =
     record_of (net k (match_url cfg match_id)) # fetched cfg net (Suc k) rest"


section \<open>Example records\<close>

definition example_player :: pyval where
  "example_player =
     PDict [(''puuid'', PStr ''p1''), (''championName'', PStr ''Ahri''),
            (''win'', PBool True), (''kills'', PInt 2), (''deaths'', PInt 0),
            (''assists'', PInt 2), (''teamPosition'', PStr ''MIDDLE''),
            (''goldEarned'', PInt 9000)]"

definition example_opponent :: pyval where
  "example_opponent =
     PDict [(''puuid'', PStr ''p2''), (''championName'', PStr ''Garen''),
            (''win'', PBool False), (''kills'', PInt 0), (''deaths'', PInt 3),
            (''assists'', PInt 0), (''teamPosition'', PStr ''TOP''),
            (''firstBloodKill'', PBool True)]"

definition example_match :: pyval where
  "example_match =
     PDict [(''info'', PDict [(''gameDuration'', PInt 1800),
                              (''participants'', PList [example_opponent, example_player])])]"

definition example_match_without_player :: pyval where
  "example_match_without_player =
     PDict [(''info'', PDict [(''gameDuration'', PInt 1500),
                              (''participants'', PList [example_opponent])])]"

text \<open>The first match is served, the second fails in transport, the third is served
  and does not hold the player, anything else is not found.\<close>

definition example_network :: network where
  "example_network k url =
     (if url = match_url example_config ''M1'' then Response 200 (Inr example_match)
      else if url = match_url example_config ''M2'' then Raise (RequestException ''timed out'')
      else if url = match_url example_config ''M3''
           then Response 200 (Inr example_match_without_player)
      else Response 404 (Inr (PDict [(''status'', PDict [(''status_code'', PInt 404)])])))"




text \<open>Training columns that know Ahri and the middle lane only.\<close>

definition example_x :: dataframe where
  "example_x =
     \<lparr>df_columns = [''kda'', ''duration'', ''champion_Ahri'', ''role_MIDDLE''],
      df_rows = []\<rparr>"


section \<open>Match Fetcher\<close>

lemma requests_made_append [simp]:
  "requests_made (tr @ tr') = requests_made tr + requests_made tr'"
  by (simp add: requests_made_def)

lemma requests_made_simps [simp]:
  "requests_made [] = 0"
  "requests_made (Request u # tr) = Suc (requests_made tr)"
  "requests_made (Sleep n # tr) = requests_made tr"
  "requests_made (StError m e # tr) = requests_made tr"
  "requests_made (Print m e # tr) = requests_made tr"
  "requests_made (Progress r # tr) = requests_made tr"
  by (simp_all add: requests_made_def)

lemma getMatchDetails_delay_after_response:
  "net (requests_made tr) (match_url cfg match_id) = Response status body \<Longrightarrow>
   \<exists>rest. snd (getMatchDetails cfg net match_id tr)
            = tr @ [Request (match_url cfg match_id), Sleep 1] @ rest"
  by (auto simp: getMatchDetails_def on_exception_def Let_def split: sum.splits)

text \<open>
  C4: the delay of one second is meant to follow every call, whether the request succeeds
  or fails. When \<open>requests.get\<close> itself raises (a transport failure), the call jumps to
  the handler before \<open>time.sleep(1)\<close>: the trace of the call holds the request and the
  two error reports, and no sleep.
\<close>

theorem getMatchDetails_transport_failure_skips_delay:
  "getMatchDetails example_config failing_network ''BR1_1'' []
     = (Inr (PDict []),
        [Request (match_url example_config ''BR1_1''),
         StError ''BR1_1'' (RequestException ''connection refused''),
         Print ''BR1_1'' (RequestException ''connection refused'')])
   \<and> Sleep 1 \<notin> set (snd (getMatchDetails example_config failing_network ''BR1_1'' []))"
  by (simp add: getMatchDetails_def on_exception_def failing_network_def Let_def)

text \<open>
  C5: a call whose request meets a transport error or an HTTP error status returns the
  empty dict and raises nothing, and the next call, for an identifier the network answers
  with a good status and a JSON body, returns that body.
\<close>

theorem getMatchDetails_error_returns_empty:
  assumes "transport_or_http_error (net (requests_made tr) (match_url cfg bad_id))"
    and "tr' = snd (getMatchDetails cfg net bad_id tr)"
    and "net (requests_made tr') (match_url cfg good_id) = Response status (Inr body)"
    and "\<not> raises_for_status status"
  shows "fst (getMatchDetails cfg net bad_id tr) = Inr (PDict [])
       \<and> fst (getMatchDetails cfg net good_id tr') = Inr body"
proof -
  have "fst (getMatchDetails cfg net bad_id tr) = Inr (PDict [])"
    using assms(1)
    by (auto simp: getMatchDetails_def on_exception_def transport_or_http_error_def Let_def
             split: http_outcome.splits)
  moreover have "fst (getMatchDetails cfg net good_id tr') = Inr body"
    using assms(3,4) by (simp add: getMatchDetails_def Let_def)
  ultimately show ?thesis by simp
qed

lemma match_url_inj: "match_url cfg a = match_url cfg b \<longleftrightarrow> a = b"
  by (simp add: match_url_def)

theorem getMatchDetails_error_returns_empty_witness:
  "transport_or_http_error (example_network 0 (match_url example_config ''M2''))
   \<and> fst (getMatchDetails example_config example_network ''M2'' []) = Inr (PDict [])
   \<and> fst (getMatchDetails example_config example_network ''M1''
            (snd (getMatchDetails example_config example_network ''M2'' []))) = Inr example_match"
proof -
  let ?tr' = "snd (getMatchDetails example_config example_network ''M2'' [])"
  have a: "transport_or_http_error
             (example_network (requests_made []) (match_url example_config ''M2''))"
    by (simp add: transport_or_http_error_def example_network_def match_url_inj)
  have b: "example_network (requests_made ?tr') (match_url example_config ''M1'')
             = Response 200 (Inr example_match)"
    by (simp add: example_network_def)
  have c: "\<not> raises_for_status 200"
    by (simp add: raises_for_status_def)
  show ?thesis
    using getMatchDetails_error_returns_empty [OF a refl b c] a by simp
qed

section \<open>Feature Extractor\<close>













lemma length_fetched [simp]: "length (fetched cfg net k ids) = length ids"
  by (induction ids arbitrary: k) simp_all









lemma bind_err_avoids:
  "m \<noteq> Inl e \<Longrightarrow> (\<And>v. f v \<noteq> Inl e) \<Longrightarrow> bind_err m f \<noteq> Inl e"
  by (cases m) (simp_all add: bind_err_def)

lemma py_subscript_no_zero_division [simp]: "py_subscript v k \<noteq> Inl ZeroDivisionError"
  by (cases v) (simp_all split: option.splits)

lemma py_get_no_zero_division [simp]: "py_get v k d \<noteq> Inl ZeroDivisionError"
  by (cases v) simp_all

lemma py_int_no_zero_division [simp]: "py_int v \<noteq> Inl ZeroDivisionError"
  by (cases v) (simp_all split: option.splits)

lemma py_add_no_zero_division [simp]: "py_add a b \<noteq> Inl ZeroDivisionError"
  by (simp add: py_add_def split: option.splits pyval.splits prod.splits)

lemma py_truediv_or_one [simp]: "py_truediv a (py_or d (PInt 1)) \<noteq> Inl ZeroDivisionError"
  by (cases d) (auto simp: py_truediv_def py_or_def split: option.splits)

lemma py_truediv_sixty [simp]: "py_truediv a (PInt 60) \<noteq> Inl ZeroDivisionError"
  by (auto simp: py_truediv_def split: option.splits)

lemma feature_row_never_divides_by_zero:
  "feature_row m p \<noteq> Inl ZeroDivisionError"
  unfolding feature_row_def
  by (intro bind_err_avoids) simp_all








section \<open>Encoder and Scenario Predictor\<close>

lemma first_seen_set [simp]: "set (first_seen xs) = set xs"
  by (simp add: first_seen_def)

lemma first_seen_distinct [simp]: "distinct (first_seen xs)"
  by (simp add: first_seen_def)



















lemma set_column_keys:
  "map fst (set_column c v e) = (if c \<in> set (map fst e) then map fst e else map fst e @ [c])"
  by (induction e) (auto simp: set_column_def)

lemma in_keys: "(k, w) \<in> set e \<Longrightarrow> k \<in> set (map fst e)"
  by force

lemma set_column_cases:
  assumes "(k, w) \<in> set (set_column c v e)"
  shows "(k = c \<and> w = v) \<or> (k \<noteq> c \<and> (k, w) \<in> set e)"
proof (cases "c \<in> set (map fst e)")
  case True
  then show ?thesis
    using assms by (auto simp: set_column_def split: if_splits)
next
  case False
  then have "(k, w) \<in> set e \<or> (k, w) = (c, v)"
    using assms by (auto simp: set_column_def)
  moreover have "k \<noteq> c" if "(k, w) \<in> set e"
    using False in_keys [OF that] by auto
  ultimately show ?thesis by auto
qed

lemma guarded_set_column_keys:
  "map fst (if c \<in> set (map fst e) then set_column c v e else e) = map fst e"
  using set_column_keys [of c v e] by (cases "c \<in> set (map fst e)") simp_all

lemma keys_constant: "map fst (map (\<lambda>c. (c, z)) xs) = xs"
  by (induction xs) simp_all

lemma guarded_set_column_cases:
  assumes "(k, w) \<in> set (if c \<in> set (map fst e) then set_column c v e else e)"
  shows "(k = c \<and> w = v) \<or> (k \<noteq> c \<and> (k, w) \<in> set e)"
proof (cases "c \<in> set (map fst e)")
  case True
  then show ?thesis
    using assms set_column_cases [of k w c v e] by simp
next
  case False
  then have m: "(k, w) \<in> set e"
    using assms by simp
  then have "k \<noteq> c"
    using False in_keys [OF m] by auto
  then show ?thesis
    using m by simp
qed

lemma numeric_columns_set:
  assumes "(k, w) \<in> set (set_column ''duration'' ta
                            (set_column ''kda'' ka (map (\<lambda>c. (c, PFloat 0)) x_columns)))"
    and "k \<noteq> ''kda''" and "k \<noteq> ''duration''"
  shows "w = PFloat 0"
proof -
  from set_column_cases [OF assms(1)] assms(3)
  have "(k, w) \<in> set (set_column ''kda'' ka (map (\<lambda>c. (c, PFloat 0)) x_columns))"
    by simp
  from set_column_cases [OF this] assms(2)
  have "(k, w) \<in> set (map (\<lambda>c. (c, PFloat 0)) x_columns)"
    by simp
  then show ?thesis by auto
qed

text \<open>
  C10: the synthetic row of a champion and a role has the training columns (an indicator
  missing from them is not added; only \<open>kda\<close> and \<open>duration\<close> are, when missing); apart
  from \<open>kda\<close> and \<open>duration\<close> every column is 0 but the indicator of that champion and
  the indicator of that role, which are 1 when the training columns have them. So at most
  one champion indicator and one role indicator are set, and none for a champion or role
  unknown to the training columns. Building the row raises nothing.
\<close>

theorem synthetic_entry_indicators:
  "map fst (synthetic_entry x_columns ka ta champ role)
     = x_columns @ (if ''kda'' \<in> set x_columns then [] else [''kda''])
                 @ (if ''duration'' \<in> set x_columns then [] else [''duration''])
   \<and> (\<forall>(c, v) \<in> set (synthetic_entry x_columns ka ta champ role).
         c \<noteq> ''kda'' \<longrightarrow> c \<noteq> ''duration'' \<longrightarrow>
         v = (if c = ''champion_'' @ champ \<or> c = ''role_'' @ role then PInt 1 else PFloat 0))
   \<and> (\<forall>c. (c, PInt 1) \<in> set (synthetic_entry x_columns ka ta champ role) \<longrightarrow>
         c \<noteq> ''kda'' \<longrightarrow> c \<noteq> ''duration'' \<longrightarrow>
         c = ''champion_'' @ champ \<or> c = ''role_'' @ role)"
proof -
  define e0 where "e0 = map (\<lambda>c. (c, PFloat 0)) x_columns"
  define e2 where "e2 = set_column ''duration'' ta (set_column ''kda'' ka e0)"
  define e3 where "e3 = (if (''champion_'' @ champ) \<in> set (map fst e2)
                         then set_column (''champion_'' @ champ) (PInt 1) e2 else e2)"
  define e4 where "e4 = (if (''role_'' @ role) \<in> set (map fst e3)
                         then set_column (''role_'' @ role) (PInt 1) e3 else e3)"
  have e: "synthetic_entry x_columns ka ta champ role = e4"
    by (simp add: synthetic_entry_def Let_def e4_def e3_def e2_def e0_def)
  have k0: "map fst e0 = x_columns"
    unfolding e0_def by (rule keys_constant)
  have k2: "map fst e2 = x_columns @ (if ''kda'' \<in> set x_columns then [] else [''kda''])
                 @ (if ''duration'' \<in> set x_columns then [] else [''duration''])"
    unfolding e2_def set_column_keys k0 by auto
  have k3: "map fst e3 = map fst e2"
    unfolding e3_def by (rule guarded_set_column_keys)
  have "map fst e4 = map fst e3"
    unfolding e4_def by (rule guarded_set_column_keys)
  then have k4: "map fst e4 = map fst e2"
    using k3 by simp
  have v2: "w = PFloat 0" if "(k, w) \<in> set e2" "k \<noteq> ''kda''" "k \<noteq> ''duration''" for k w
    using that numeric_columns_set unfolding e2_def e0_def by blast
  have v4: "w = (if k = ''champion_'' @ champ \<or> k = ''role_'' @ role then PInt 1 else PFloat 0)"
    if m: "(k, w) \<in> set e4" and nk: "k \<noteq> ''kda''" and nd: "k \<noteq> ''duration''" for k w
  proof -
    from guarded_set_column_cases [OF m [unfolded e4_def]]
    consider "k = ''role_'' @ role" "w = PInt 1" | "k \<noteq> ''role_'' @ role" "(k, w) \<in> set e3"
      by blast
    then show ?thesis
    proof cases
      case 1
      then show ?thesis by simp
    next
      case 2
      from guarded_set_column_cases [OF 2(2) [unfolded e3_def]]
      consider "k = ''champion_'' @ champ" "w = PInt 1"
        | "k \<noteq> ''champion_'' @ champ" "(k, w) \<in> set e2"
        by blast
      then show ?thesis
      proof cases
        case 1
        then show ?thesis by simp
      next
        case 2
        then show ?thesis
          using v2 [OF 2(2) nk nd] \<open>k \<noteq> ''role_'' @ role\<close> by simp
      qed
    qed
  qed
  have a: "map fst (synthetic_entry x_columns ka ta champ role)
     = x_columns @ (if ''kda'' \<in> set x_columns then [] else [''kda''])
                 @ (if ''duration'' \<in> set x_columns then [] else [''duration''])"
    unfolding e k4 k2 ..
  have b: "\<forall>(c, v) \<in> set (synthetic_entry x_columns ka ta champ role).
         c \<noteq> ''kda'' \<longrightarrow> c \<noteq> ''duration'' \<longrightarrow>
         v = (if c = ''champion_'' @ champ \<or> c = ''role_'' @ role then PInt 1 else PFloat 0)"
    unfolding e using v4 by (intro ballI) (simp add: case_prod_beta)
  have c: "\<forall>c. (c, PInt 1) \<in> set (synthetic_entry x_columns ka ta champ role) \<longrightarrow>
         c \<noteq> ''kda'' \<longrightarrow> c \<noteq> ''duration'' \<longrightarrow>
         c = ''champion_'' @ champ \<or> c = ''role_'' @ role"
  proof (intro allI impI)
    fix c
    assume "(c, PInt 1) \<in> set (synthetic_entry x_columns ka ta champ role)"
      "c \<noteq> ''kda''" "c \<noteq> ''duration''"
    then have "PInt 1 = (if c = ''champion_'' @ champ \<or> c = ''role_'' @ role
                         then PInt 1 else PFloat 0)"
      unfolding e by (rule v4)
    then show "c = ''champion_'' @ champ \<or> c = ''role_'' @ role"
      by (simp split: if_splits)
  qed
  show ?thesis
    using a b c by (intro conjI)
qed

theorem synthetic_entry_indicators_witness:
  "(''champion_Ahri'', PFloat 0)
     \<in> set (synthetic_entry (df_columns example_x) (PFloat 4) (PFloat 30) ''Garen'' ''MIDDLE'')
   \<and> ''champion_Ahri'' \<noteq> ''kda'' \<and> ''champion_Ahri'' \<noteq> ''duration''
   \<and> synthetic_entry (df_columns example_x) (PFloat 4) (PFloat 30) ''Garen'' ''MIDDLE''
       = [(''kda'', PFloat 4), (''duration'', PFloat 30), (''champion_Ahri'', PFloat 0),
          (''role_MIDDLE'', PInt 1)]
   \<and> map fst (synthetic_entry (df_columns example_x) (PFloat 4) (PFloat 30) ''Garen'' ''MIDDLE'')
       = df_columns example_x"
proof -
  have cols: "df_columns example_x = [''kda'', ''duration'', ''champion_Ahri'', ''role_MIDDLE'']"
    by (simp add: example_x_def)
  have ev: "synthetic_entry [''kda'', ''duration'', ''champion_Ahri'', ''role_MIDDLE'']
              (PFloat 4) (PFloat 30) ''Garen'' ''MIDDLE''
       = [(''kda'', PFloat 4), (''duration'', PFloat 30), (''champion_Ahri'', PFloat 0),
          (''role_MIDDLE'', PInt 1)]"
    by (simp add: synthetic_entry_def set_column_def Let_def)
  show ?thesis
    using synthetic_entry_indicators
            [of "df_columns example_x" "PFloat 4" "PFloat 30" "''Garen''" "''MIDDLE''"]
    unfolding cols ev by simp
qed

end
